theory Spec2Isabelle
  imports Complex_Main
begin

section \<open>Data model (src/types/index.ts)\<close>

text \<open>
  The interface \<open>GrantApplication\<close>.  An optional property (\<open>id?: string\<close>) is an
  \<open>option\<close>; \<open>None\<close> is the absent property.  The property \<open>id\<close> is named
  \<open>id_field\<close> here.  A \<open>number\<close> is a real: the only writer of \<open>grant_amount\<close> is
  \<open>parseFloat(value) || 0\<close>, which replaces NaN by 0, and the two constants 1000 and 0.
  A string is a list of code units below 256.
\<close>

record GrantApplication =
  id_field :: "string option"
  company_name :: string
  contact_email :: string
  contact_phone :: string
  contact_person :: string
  grant_amount :: real
  project_description :: string
  business_plan_url :: "string option"
  financial_statements_url :: "string option"
  supporting_documents_url :: "string option"
  status :: "string option"
  user_id :: "string option"
  created_at :: "string option"

text \<open>The browser's \<open>File\<close>: the two properties the component reads.\<close>

record File =
  name_file :: string
  size_file :: nat

record FileUploadState =
  business_plan :: "File option"
  financial_statements :: "File option"
  supporting_documents :: "File option"

type_synonym UploadProgress = "string \<rightharpoonup> bool"

text \<open>The five \<open>useState\<close> cells of the component \<open>GrantApplicationForm\<close>.\<close>

record form_state =
  formData :: GrantApplication
  uploadedFiles :: FileUploadState
  isSubmitting :: bool
  uploadProgress :: UploadProgress
  submitMessage :: string

definition initial_formData :: GrantApplication where
  "initial_formData =
     \<lparr>id_field = None, company_name = '''', contact_email = '''', contact_phone = '''',
      contact_person = '''', grant_amount = 1000, project_description = '''',
      business_plan_url = None, financial_statements_url = None,
      supporting_documents_url = None, status = None, user_id = None, created_at = None\<rparr>"

definition empty_uploadedFiles :: FileUploadState where
  "empty_uploadedFiles =
     \<lparr>business_plan = None, financial_statements = None, supporting_documents = None\<rparr>"

definition initial_state :: form_state where
  "initial_state =
     \<lparr>formData = initial_formData, uploadedFiles = empty_uploadedFiles,
      isSubmitting = False, uploadProgress = Map.empty, submitMessage = ''''\<rparr>"

section \<open>Collaborators\<close>

text \<open>
  An awaited call either throws (the promise is rejected) or yields the object the
  component destructures: \<open>{ data, error }\<close>, each of them possibly null.
\<close>

datatype ApiError = ApiError (message: string)

datatype 'd response = Response "'d option" "ApiError option"

datatype 'a settled = Rejected | Fulfilled 'a

datatype User = User (id_user: string)

datatype UploadData = UploadData (path: string)

datatype StoredRecord = StoredRecord (id_record: string)

text \<open>
  The calls a handler makes on the collaborators and on the timer, in order.
  \<open>StorageUpload bucket path file\<close>, \<open>StorageGetPublicUrl bucket path\<close>,
  \<open>TableInsert table record\<close>, \<open>SetTimeout delay\<close> (the callback is \<open>resetForm\<close>).
  Console output is left out.
\<close>

datatype call =
    AuthGetUser
  | StorageUpload string string File
  | StorageGetPublicUrl string string
  | TableInsert string GrantApplication
  | SetTimeout nat

fun is_TableInsert :: "call \<Rightarrow> bool" where
  "is_TableInsert (TableInsert t r) = True"
| "is_TableInsert c = False"

fun is_StorageUpload :: "call \<Rightarrow> bool" where
  "is_StorageUpload (StorageUpload b p f) = True"
| "is_StorageUpload c = False"

section \<open>Computed property names\<close>

text \<open>
  \<open>{ ...prev, [name]: v }\<close> with a string \<open>v\<close>, on the properties the interface types as
  strings.  A write the interface does not type (a key outside it, a string into
  \<open>grant_amount\<close>) has no representation in the record and leaves it as it is.
\<close>

definition set_string_property :: "string \<Rightarrow> string \<Rightarrow> GrantApplication \<Rightarrow> GrantApplication" where
  "set_string_property key v d =
     (if key = ''id'' then d\<lparr>id_field := Some v\<rparr>
      else if key = ''company_name'' then d\<lparr>company_name := v\<rparr>
      else if key = ''contact_email'' then d\<lparr>contact_email := v\<rparr>
      else if key = ''contact_phone'' then d\<lparr>contact_phone := v\<rparr>
      else if key = ''contact_person'' then d\<lparr>contact_person := v\<rparr>
      else if key = ''project_description'' then d\<lparr>project_description := v\<rparr>
      else if key = ''business_plan_url'' then d\<lparr>business_plan_url := Some v\<rparr>
      else if key = ''financial_statements_url'' then d\<lparr>financial_statements_url := Some v\<rparr>
      else if key = ''supporting_documents_url'' then d\<lparr>supporting_documents_url := Some v\<rparr>
      else if key = ''status'' then d\<lparr>status := Some v\<rparr>
      else if key = ''user_id'' then d\<lparr>user_id := Some v\<rparr>
      else if key = ''created_at'' then d\<lparr>created_at := Some v\<rparr>
      else d)"

text \<open>The same with a number: \<open>grant_amount\<close> is the one numeric property.\<close>

definition set_number_property :: "string \<Rightarrow> real \<Rightarrow> GrantApplication \<Rightarrow> GrantApplication" where
  "set_number_property key x d = (if key = ''grant_amount'' then d\<lparr>grant_amount := x\<rparr> else d)"

text \<open>\<open>{ ...prev, [fileType]: file }\<close> on the upload state.\<close>

definition set_file_property :: "string \<Rightarrow> File \<Rightarrow> FileUploadState \<Rightarrow> FileUploadState" where
  "set_file_property key f u =
     (if key = ''business_plan'' then u\<lparr>business_plan := Some f\<rparr>
      else if key = ''financial_statements'' then u\<lparr>financial_statements := Some f\<rparr>
      else if key = ''supporting_documents'' then u\<lparr>supporting_documents := Some f\<rparr>
      else u)"

text \<open>Reading a property by its name: the optional string properties, and the files.\<close>

definition get_optional_property :: "string \<Rightarrow> GrantApplication \<Rightarrow> string option" where
  "get_optional_property key d =
     (if key = ''id'' then id_field d
      else if key = ''business_plan_url'' then business_plan_url d
      else if key = ''financial_statements_url'' then financial_statements_url d
      else if key = ''supporting_documents_url'' then supporting_documents_url d
      else if key = ''status'' then status d
      else if key = ''user_id'' then user_id d
      else if key = ''created_at'' then created_at d
      else None)"

definition get_file_property :: "string \<Rightarrow> FileUploadState \<Rightarrow> File option" where
  "get_file_property key u =
     (if key = ''business_plan'' then business_plan u
      else if key = ''financial_statements'' then financial_statements u
      else if key = ''supporting_documents'' then supporting_documents u
      else None)"

section \<open>String helpers of the runtime\<close>

text \<open>\<open>s.split(c)\<close> for a one-character separator: never an empty array.\<close>

fun split_string :: "char \<Rightarrow> string \<Rightarrow> string list" where
  "split_string c [] = [[]]"
| "split_string c (x # xs) =
     (if x = c then [] # split_string c xs
      else (case split_string c xs of w # ws \<Rightarrow> (x # w) # ws | [] \<Rightarrow> [[x]]))"

text \<open>\<open>s.replace(a, b)\<close> with one-character strings: the first occurrence only.\<close>

fun replace_string :: "char \<Rightarrow> char \<Rightarrow> string \<Rightarrow> string" where
  "replace_string a b [] = []"
| "replace_string a b (x # xs) = (if x = a then b # xs else x # replace_string a b xs)"

section \<open>Regular expressions\<close>

text \<open>
  The fragment of regular expressions that the literal
  \<open>/^[^\s@]+@[^\s@]+\.[^\s@]+$/\<close> needs, with a matcher by derivatives.  With both
  anchors, \<open>test\<close> is a match of the whole string.
\<close>

datatype rx = Fail | Empty | Sym "char \<Rightarrow> bool" | Or rx rx | Then rx rx | Many rx

fun nullable :: "rx \<Rightarrow> bool" where
  "nullable Fail = False"
| "nullable Empty = True"
| "nullable (Sym p) = False"
| "nullable (Or r s) = (nullable r \<or> nullable s)"
| "nullable (Then r s) = (nullable r \<and> nullable s)"
| "nullable (Many r) = True"

fun deriv :: "char \<Rightarrow> rx \<Rightarrow> rx" where
  "deriv c Fail = Fail"
| "deriv c Empty = Fail"
| "deriv c (Sym p) = (if p c then Empty else Fail)"
| "deriv c (Or r s) = Or (deriv c r) (deriv c s)"
| "deriv c (Then r s) =
     (if nullable r then Or (Then (deriv c r) s) (deriv c s) else Then (deriv c r) s)"
| "deriv c (Many r) = Then (deriv c r) (Many r)"

fun test :: "rx \<Rightarrow> string \<Rightarrow> bool" where
  "test r [] = nullable r"
| "test r (c # cs) = test (deriv c r) cs"

definition OneOrMore :: "rx \<Rightarrow> rx" where
  "OneOrMore r = Then r (Many r)"

text \<open>\<open>\s\<close> on code units below 256: tab, LF, VT, FF, CR, space, no-break space.\<close>

definition is_space :: "char \<Rightarrow> bool" where
  "is_space c = (of_char c \<in> {9, 10, 11, 12, 13, 32, 160 :: nat})"

definition not_space_at :: "char \<Rightarrow> bool" where
  "not_space_at c = (\<not> is_space c \<and> c \<noteq> CHR ''@'')"

definition emailRegex :: rx where
  "emailRegex =
     Then (OneOrMore (Sym not_space_at))
       (Then (Sym (\<lambda>c. c = CHR ''@''))
         (Then (OneOrMore (Sym not_space_at))
           (Then (Sym (\<lambda>c. c = CHR ''.''))
             (OneOrMore (Sym not_space_at)))))"

section \<open>The handlers (src/components/GrantApplicationForm.tsx)\<close>

text \<open>
  \<open>handleInputChange\<close>: \<open>name\<close>, \<open>value\<close> and \<open>type\<close> are those of the event's
  target.  \<open>parseFloat\<close> is the runtime's, \<open>None\<close> for NaN; \<open>x || 0\<close> is 0 for NaN and
  for 0, and \<open>x\<close> otherwise.
\<close>

definition handleInputChange ::
  "(string \<Rightarrow> real option) \<Rightarrow> string \<Rightarrow> string \<Rightarrow> string \<Rightarrow> form_state \<Rightarrow> form_state" where
  "handleInputChange parseFloat name val type s =
     s\<lparr>formData :=
         (if type = ''number''
          then set_number_property name
                 (case parseFloat val of None \<Rightarrow> 0 | Some x \<Rightarrow> if x = 0 then 0 else x)
          else set_string_property name val) (formData s)\<rparr>"

text \<open>
  \<open>handleFileUpload\<close>, run to completion.  \<open>file\<close> is \<open>e.target.files?.[0]\<close>;
  \<open>getUser\<close> and \<open>upload\<close> are what the two awaited calls settle with, \<open>uuid\<close> is the
  value of \<open>crypto.randomUUID()\<close>, \<open>getPublicUrl\<close> maps a stored path to its URL.  The
  \<open>finally\<close> block runs on every path that entered the \<open>try\<close>.
\<close>

definition handleFileUpload ::
  "File option \<Rightarrow> string \<Rightarrow> User response settled \<Rightarrow> string \<Rightarrow> UploadData response settled \<Rightarrow>
   (string \<Rightarrow> string) \<Rightarrow> form_state \<Rightarrow> form_state \<times> call list" where
  "handleFileUpload file fileType getUser uuid upload getPublicUrl s =
     (case file of
        None \<Rightarrow> (s, [])
      | Some f \<Rightarrow>
          if size_file f > 10 * 1024 * 1024
          then (s\<lparr>submitMessage := ''File size must be less than 10MB''\<rparr>, [])
          else
            let s1 = s\<lparr>uploadProgress := (uploadProgress s)(fileType \<mapsto> True)\<rparr>;
                finally = (\<lambda>t. t\<lparr>uploadProgress := (uploadProgress t)(fileType \<mapsto> False)\<rparr>);
                catch = (\<lambda>t. t\<lparr>submitMessage := ''Upload failed. Please try again.''\<rparr>)
            in
            (case getUser of
               Rejected \<Rightarrow> (finally (catch s1), [AuthGetUser])
             | Fulfilled (Response user userError) \<Rightarrow>
                 (case (userError, user) of
                    (None, Some u) \<Rightarrow>
                      let fileExtension = last (split_string CHR ''.'' (name_file f));
                          uniqueFileName = uuid @ ''.'' @ fileExtension;
                          filePath = id_user u @ ''/'' @ uniqueFileName;
                          calls = [AuthGetUser, StorageUpload ''grant-documents'' filePath f]
                      in
                      (case upload of
                         Rejected \<Rightarrow> (finally (catch s1), calls)
                       | Fulfilled (Response data error) \<Rightarrow>
                           (case error of
                              Some err \<Rightarrow>
                                (finally (s1\<lparr>submitMessage :=
                                    ''Error uploading '' @ replace_string CHR ''_'' CHR '' '' fileType
                                      @ '': '' @ message err\<rparr>), calls)
                            | None \<Rightarrow>
                                (case data of
                                   None \<Rightarrow> (finally (catch s1), calls)
                                 | Some d \<Rightarrow>
                                     (finally
                                        (s1\<lparr>formData :=
                                              set_string_property (fileType @ ''_url'')
                                                (getPublicUrl (path d)) (formData s1),
                                            uploadedFiles :=
                                              set_file_property fileType f (uploadedFiles s1)\<rparr>),
                                      calls @ [StorageGetPublicUrl ''grant-documents'' (path d)]))))
                  | _ \<Rightarrow> (finally (s1\<lparr>submitMessage := ''Please log in to upload files''\<rparr>),
                          [AuthGetUser]))))"

text \<open>The four guards of \<open>handleSubmit\<close>, each the condition of one \<open>if\<close>.\<close>

definition missing_required :: "GrantApplication \<Rightarrow> bool" where
  "missing_required d =
     (company_name d = [] \<or> contact_email d = [] \<or> contact_person d = [] \<or>
      contact_phone d = [] \<or> project_description d = [] \<or> grant_amount d \<le> 0)"

definition invalid_email :: "GrantApplication \<Rightarrow> bool" where
  "invalid_email d = (\<not> test emailRegex (contact_email d))"

definition amount_out_of_range :: "GrantApplication \<Rightarrow> bool" where
  "amount_out_of_range d = (grant_amount d < 1000 \<or> grant_amount d > 1000000)"

definition missing_documents :: "FileUploadState \<Rightarrow> bool" where
  "missing_documents u =
     (business_plan u = None \<or> financial_statements u = None \<or> supporting_documents u = None)"

text \<open>The callback handed to \<open>setTimeout\<close> after a successful insert.\<close>

definition resetForm :: "form_state \<Rightarrow> form_state" where
  "resetForm s =
     s\<lparr>formData :=
         \<lparr>id_field = None, company_name = '''', contact_email = '''', contact_phone = '''',
          contact_person = '''', grant_amount = 0, project_description = '''',
          business_plan_url = None, financial_statements_url = None,
          supporting_documents_url = None, status = None, user_id = None, created_at = None\<rparr>,
       uploadedFiles := empty_uploadedFiles,
       submitMessage := ''''\<rparr>"

text \<open>
  \<open>handleSubmit\<close>, run to completion.  \<open>getUser\<close> and \<open>inserted\<close> are what the two
  awaited calls settle with.
\<close>

definition handleSubmit ::
  "User response settled \<Rightarrow> StoredRecord response settled \<Rightarrow> form_state \<Rightarrow> form_state \<times> call list" where
  "handleSubmit getUser inserted s =
     (let s1 = s\<lparr>isSubmitting := True, submitMessage := ''''\<rparr>;
          finally = (\<lambda>t. t\<lparr>isSubmitting := False\<rparr>);
          catch = (\<lambda>t. t\<lparr>submitMessage :=
                     ''Submission failed. Please check your connection and try again.''\<rparr>)
      in
      if missing_required (formData s)
      then (finally (s1\<lparr>submitMessage := ''Please fill in all required fields'',
                        isSubmitting := False\<rparr>), [])
      else if invalid_email (formData s)
      then (finally (s1\<lparr>submitMessage := ''Please enter a valid email address'',
                        isSubmitting := False\<rparr>), [])
      else if amount_out_of_range (formData s)
      then (finally (s1\<lparr>submitMessage := ''Grant amount must be between $1,000 and $1,000,000'',
                        isSubmitting := False\<rparr>), [])
      else if missing_documents (uploadedFiles s)
      then (finally (s1\<lparr>submitMessage :=
              ''Please upload all required documents: Business Plan, Financial Statements, and Supporting Documents.'',
                        isSubmitting := False\<rparr>), [])
      else
        (case getUser of
           Rejected \<Rightarrow> (finally (catch s1), [AuthGetUser])
         | Fulfilled (Response user userError) \<Rightarrow>
             (case (userError, user) of
                (None, Some u) \<Rightarrow>
                  let applicationData = (formData s)\<lparr>user_id := Some (id_user u),
                                                     status := Some ''pending''\<rparr>;
                      calls = [AuthGetUser, TableInsert ''grant_applications'' applicationData]
                  in
                  (case inserted of
                     Rejected \<Rightarrow> (finally (catch s1), calls)
                   | Fulfilled (Response data error) \<Rightarrow>
                       (case error of
                          Some err \<Rightarrow>
                            (finally (s1\<lparr>submitMessage :=
                                ''Error submitting application: '' @ message err\<rparr>), calls)
                        | None \<Rightarrow>
                            (case data of
                               None \<Rightarrow> (finally (catch s1), calls)
                             | Some d \<Rightarrow>
                                 (finally (s1\<lparr>submitMessage :=
                                     ''Application submitted successfully! Application ID: ''
                                       @ id_record d @ ''.''\<rparr>),
                                  calls @ [SetTimeout 5000]))))
              | _ \<Rightarrow> (finally (s1\<lparr>submitMessage := ''Please log in to submit your application'',
                                  isSubmitting := False\<rparr>), [AuthGetUser]))))"

section \<open>The form as a transition system\<close>

text \<open>
  What the component renders: the \<open>name\<close> and \<open>type\<close> of each input wired to
  \<open>handleInputChange\<close> (the textarea reports the type \<open>textarea\<close>), and the
  \<open>fileType\<close> of each call site of \<open>handleFileUpload\<close>.
\<close>

definition rendered_inputs :: "(string \<times> string) list" where
  "rendered_inputs =
     [(''company_name'', ''text''), (''contact_person'', ''text''),
      (''contact_email'', ''email''), (''contact_phone'', ''tel''),
      (''grant_amount'', ''number''), (''project_description'', ''textarea'')]"

definition rendered_uploads :: "string list" where
  "rendered_uploads = [''business_plan'', ''financial_statements'', ''supporting_documents'']"

text \<open>
  An event is one handler run to completion, with what its awaited calls settle with, or
  the expiry of a timeout set by \<open>handleSubmit\<close>.
\<close>

datatype event =
    InputChange string string string
  | FileUpload "File option" string "User response settled" string "UploadData response settled"
  | Submit "User response settled" "StoredRecord response settled"
  | TimerFires

text \<open>The component's state and the number of timeouts not yet expired.\<close>

record client =
  form :: form_state
  timers :: nat

definition initial_client :: client where
  "initial_client = \<lparr>form = initial_state, timers = 0\<rparr>"

fun is_SetTimeout :: "call \<Rightarrow> bool" where
  "is_SetTimeout (SetTimeout n) = True"
| "is_SetTimeout c = False"

text \<open>An event that cannot occur in the state (no such input, no timeout pending) is \<open>None\<close>.\<close>

fun step :: "(string \<Rightarrow> real option) \<Rightarrow> (string \<Rightarrow> string) \<Rightarrow> event \<Rightarrow> client \<Rightarrow> client option" where
  "step parseFloat getPublicUrl (InputChange name val type) c =
     (if (name, type) \<in> set rendered_inputs
      then Some (c\<lparr>form := handleInputChange parseFloat name val type (form c)\<rparr>)
      else None)"
| "step parseFloat getPublicUrl (FileUpload file fileType getUser uuid upload) c =
     (if fileType \<in> set rendered_uploads
      then Some (c\<lparr>form := fst (handleFileUpload file fileType getUser uuid upload getPublicUrl (form c))\<rparr>)
      else None)"
| "step parseFloat getPublicUrl (Submit getUser inserted) c =
     (case handleSubmit getUser inserted (form c) of
        (s', calls) \<Rightarrow> Some \<lparr>form = s', timers = timers c + length (filter is_SetTimeout calls)\<rparr>)"
| "step parseFloat getPublicUrl TimerFires c =
     (if 0 < timers c then Some \<lparr>form = resetForm (form c), timers = timers c - 1\<rparr> else None)"

fun run :: "(string \<Rightarrow> real option) \<Rightarrow> (string \<Rightarrow> string) \<Rightarrow> event list \<Rightarrow> client \<Rightarrow> client option" where
  "run parseFloat getPublicUrl [] c = Some c"
| "run parseFloat getPublicUrl (e # es) c =
     (case step parseFloat getPublicUrl e c of
        None \<Rightarrow> None
      | Some c' \<Rightarrow> run parseFloat getPublicUrl es c')"

section \<open>The language of a regular expression\<close>

inductive_set many :: "string set \<Rightarrow> string set" for A :: "string set" where
  nil: "[] \<in> many A"
| app: "u \<in> A \<Longrightarrow> v \<in> many A \<Longrightarrow> u @ v \<in> many A"

fun lang :: "rx \<Rightarrow> string set" where
  "lang Fail = {}"
| "lang Empty = {[]}"
| "lang (Sym p) = {[c] | c. p c}"
| "lang (Or r s) = lang r \<union> lang s"
| "lang (Then r s) = {u @ v | u v. u \<in> lang r \<and> v \<in> lang s}"
| "lang (Many r) = many (lang r)"

text \<open>The part of an address after its first \<open>@\<close> (empty when there is none).\<close>

definition domain_part :: "string \<Rightarrow> string" where
  "domain_part e = drop 1 (dropWhile (\<lambda>c. c \<noteq> CHR ''@'') e)"

section \<open>Slots and their URLs\<close>

text \<open>
  A slot's file is recorded exactly when the draft has the slot's URL, for each of the
  three slots.
\<close>

definition slots_consistent :: "GrantApplication \<Rightarrow> FileUploadState \<Rightarrow> bool" where
  "slots_consistent d u =
     (\<forall>slot \<in> set rendered_uploads.
        (get_file_property slot u \<noteq> None) = (get_optional_property (slot @ ''_url'') d \<noteq> None))"

section \<open>Example inputs\<close>

definition example_user :: User where
  "example_user = User ''user-1''"

definition example_file :: File where
  "example_file = \<lparr>name_file = ''plan.v2.pdf'', size_file = 2048\<rparr>"

definition example_big_file :: File where
  "example_big_file = \<lparr>name_file = ''scan.pdf'', size_file = 10485761\<rparr>"

definition example_formData :: GrantApplication where
  "example_formData =
     \<lparr>id_field = None, company_name = ''Acme'', contact_email = ''a@b.co'',
      contact_phone = ''555-0100'', contact_person = ''Ann'', grant_amount = 1000,
      project_description = ''Pilot'',
      business_plan_url = Some ''https://cdn/user-1/1.pdf'',
      financial_statements_url = Some ''https://cdn/user-1/2.pdf'',
      supporting_documents_url = Some ''https://cdn/user-1/3.pdf'',
      status = None, user_id = None, created_at = None\<rparr>"

definition example_state :: form_state where
  "example_state =
     \<lparr>formData = example_formData,
      uploadedFiles = \<lparr>business_plan = Some example_file, financial_statements = Some example_file,
                       supporting_documents = Some example_file\<rparr>,
      isSubmitting = False, uploadProgress = Map.empty, submitMessage = ''''\<rparr>"

text \<open>The state after the initial one has seen one successful upload of a business plan.\<close>

definition example_uploaded_state :: form_state where
  "example_uploaded_state =
     initial_state
       \<lparr>formData := initial_formData\<lparr>business_plan_url := Some ''https://cdn/user-1/u-1.pdf''\<rparr>,
        uploadedFiles := empty_uploadedFiles\<lparr>business_plan := Some example_file\<rparr>,
        uploadProgress := [''business_plan'' \<mapsto> False]\<rparr>"

section \<open>The matcher decides the language\<close>

lemma nullable_lang: "nullable r \<longleftrightarrow> [] \<in> lang r"
  by (induction r) (auto intro: many.nil)

lemma many_Cons: "c # w \<in> many A \<longleftrightarrow> (\<exists>u v. w = u @ v \<and> c # u \<in> A \<and> v \<in> many A)"
proof
  assume "c # w \<in> many A"
  then show "\<exists>u v. w = u @ v \<and> c # u \<in> A \<and> v \<in> many A"
  proof (induction "c # w" rule: many.induct)
    case (app u v)
    show ?case
    proof (cases u)
      case Nil
      with app show ?thesis by simp
    next
      case (Cons a u')
      with app have "w = u' @ v" "c # u' \<in> A" "v \<in> many A" by auto
      then show ?thesis by blast
    qed
  qed
next
  assume "\<exists>u v. w = u @ v \<and> c # u \<in> A \<and> v \<in> many A"
  then obtain u v where "w = u @ v" "c # u \<in> A" "v \<in> many A" by blast
  then have "(c # u) @ v \<in> many A" by (intro many.app)
  with \<open>w = u @ v\<close> show "c # w \<in> many A" by simp
qed

lemma deriv_lang: "w \<in> lang (deriv c r) \<longleftrightarrow> c # w \<in> lang r"
proof (induction r arbitrary: w)
  case (Then r s)
  show ?case
  proof (cases "nullable r")
    case True
    then have "[] \<in> lang r" by (simp add: nullable_lang)
    with True Then show ?thesis
      by (auto simp: Cons_eq_append_conv)
  next
    case False
    then have "[] \<notin> lang r" by (simp add: nullable_lang)
    with False Then show ?thesis
      by (auto simp: Cons_eq_append_conv)
  qed
next
  case (Many r)
  then show ?case by (auto simp: many_Cons)
qed auto

lemma test_lang: "test r w \<longleftrightarrow> w \<in> lang r"
  by (induction w arbitrary: r) (simp_all add: nullable_lang deriv_lang)

lemma many_Sym: "w \<in> many {[c] | c. p c} \<longleftrightarrow> (\<forall>c \<in> set w. p c)"
proof (induction w)
  case Nil
  show ?case by (simp add: many.nil)
next
  case (Cons a w)
  then show ?case by (auto simp: many_Cons)
qed

lemma lang_OneOrMore_Sym: "w \<in> lang (OneOrMore (Sym p)) \<longleftrightarrow> w \<noteq> [] \<and> (\<forall>c \<in> set w. p c)"
proof -
  have "w \<in> lang (OneOrMore (Sym p)) \<longleftrightarrow> (\<exists>c v. w = c # v \<and> p c \<and> (\<forall>x \<in> set v. p x))"
    by (auto simp: OneOrMore_def many_Sym) (metis append_Cons append_Nil)
  then show ?thesis by (cases w) auto
qed

text \<open>
  The addresses the literal accepts: a local part, \<open>@\<close>, a domain with a dot that has
  something on both sides, and neither white space nor a second \<open>@\<close> anywhere.
\<close>

lemma test_emailRegex_iff:
  "test emailRegex s \<longleftrightarrow>
     (\<exists>l d t. s = l @ CHR ''@'' # d @ CHR ''.'' # t \<and>
        (l \<noteq> [] \<and> (\<forall>c \<in> set l. not_space_at c)) \<and>
        (d \<noteq> [] \<and> (\<forall>c \<in> set d. not_space_at c)) \<and>
        (t \<noteq> [] \<and> (\<forall>c \<in> set t. not_space_at c)))"
proof -
  have "test emailRegex s \<longleftrightarrow>
     (\<exists>l d t. s = l @ [CHR ''@''] @ d @ [CHR ''.''] @ t \<and> l \<in> lang (OneOrMore (Sym not_space_at))
        \<and> d \<in> lang (OneOrMore (Sym not_space_at)) \<and> t \<in> lang (OneOrMore (Sym not_space_at)))"
    unfolding test_lang emailRegex_def by (simp only: lang.simps) blast
  then show ?thesis
    by (simp add: lang_OneOrMore_Sym)
qed

lemma test_emailRegex_shape:
  assumes "test emailRegex e"
  shows "CHR ''@'' \<in> set e \<and> CHR ''.'' \<in> set (domain_part e)"
proof -
  from assms obtain l d t where e: "e = l @ CHR ''@'' # d @ CHR ''.'' # t"
    and l: "\<forall>c \<in> set l. not_space_at c"
    by (auto simp: test_emailRegex_iff)
  from l have "\<forall>c \<in> set l. c \<noteq> CHR ''@''" by (auto simp: not_space_at_def)
  then have "dropWhile (\<lambda>c. c \<noteq> CHR ''@'') e = CHR ''@'' # d @ CHR ''.'' # t"
    unfolding e by (simp add: dropWhile_append)
  then show ?thesis by (simp add: domain_part_def e)
qed

lemma test_emailRegex_example: "test emailRegex ''a@b.co''"
  by (simp add: emailRegex_def OneOrMore_def not_space_at_def is_space_def)

section \<open>What each handler leaves alone\<close>

lemma handleSubmit_frame:
  "formData (fst (handleSubmit getUser inserted s)) = formData s \<and>
   uploadedFiles (fst (handleSubmit getUser inserted s)) = uploadedFiles s"
  by (simp add: handleSubmit_def Let_def split: settled.split response.split option.split)

lemma handleSubmit_insert_record:
  assumes "TableInsert t r \<in> set (snd (handleSubmit getUser inserted s))"
  shows "status r = Some ''pending'' \<and> user_id r \<noteq> None"
  using assms
  by (auto simp: handleSubmit_def Let_def
      split: if_splits settled.splits response.splits option.splits)

lemma handleInputChange_frame:
  assumes "(name, type) \<in> set rendered_inputs"
  shows "status (formData (handleInputChange parseFloat name val type s)) = status (formData s) \<and>
         user_id (formData (handleInputChange parseFloat name val type s)) = user_id (formData s) \<and>
         business_plan_url (formData (handleInputChange parseFloat name val type s)) =
           business_plan_url (formData s) \<and>
         financial_statements_url (formData (handleInputChange parseFloat name val type s)) =
           financial_statements_url (formData s) \<and>
         supporting_documents_url (formData (handleInputChange parseFloat name val type s)) =
           supporting_documents_url (formData s) \<and>
         uploadedFiles (handleInputChange parseFloat name val type s) = uploadedFiles s"
  using assms
  by (auto simp: rendered_inputs_def handleInputChange_def set_string_property_def
      set_number_property_def)

lemma handleFileUpload_owner:
  assumes "fileType \<in> set rendered_uploads"
  shows "status (formData (fst (handleFileUpload file fileType getUser uuid upload getPublicUrl s))) =
           status (formData s) \<and>
         user_id (formData (fst (handleFileUpload file fileType getUser uuid upload getPublicUrl s))) =
           user_id (formData s)"
  using assms
  by (auto simp: rendered_uploads_def handleFileUpload_def Let_def set_string_property_def
      split: settled.splits response.splits option.splits)

lemma slots_consistent_iff:
  "slots_consistent d u \<longleftrightarrow>
     (business_plan u \<noteq> None) = (business_plan_url d \<noteq> None) \<and>
     (financial_statements u \<noteq> None) = (financial_statements_url d \<noteq> None) \<and>
     (supporting_documents u \<noteq> None) = (supporting_documents_url d \<noteq> None)"
  by (simp add: slots_consistent_def rendered_uploads_def get_file_property_def
      get_optional_property_def)

lemma handleFileUpload_slots:
  assumes "fileType \<in> set rendered_uploads"
    and "slots_consistent (formData s) (uploadedFiles s)"
  shows "slots_consistent
           (formData (fst (handleFileUpload file fileType getUser uuid upload getPublicUrl s)))
           (uploadedFiles (fst (handleFileUpload file fileType getUser uuid upload getPublicUrl s)))"
  using assms
  by (auto simp: slots_consistent_iff rendered_uploads_def handleFileUpload_def Let_def
      set_string_property_def set_file_property_def
      split: settled.splits response.splits option.splits)

section \<open>Invariants of the transition system\<close>

lemma run_invariant:
  assumes "run parseFloat getPublicUrl es c0 = Some c" and "P c0"
    and "\<And>e c c'. P c \<Longrightarrow> step parseFloat getPublicUrl e c = Some c' \<Longrightarrow> P c'"
  shows "P c"
  using assms(1,2)
proof (induction es arbitrary: c0)
  case Nil
  then show ?case by simp
next
  case (Cons e es)
  from Cons.prems(1) obtain c1 where s: "step parseFloat getPublicUrl e c0 = Some c1"
    and r: "run parseFloat getPublicUrl es c1 = Some c"
    by (auto split: option.splits)
  from assms(3) [OF Cons.prems(2) s] have "P c1" .
  with Cons.IH r show ?case by blast
qed

lemma step_owner:
  assumes "step parseFloat getPublicUrl e c = Some c'"
    and "status (formData (form c)) = None \<and> user_id (formData (form c)) = None"
  shows "status (formData (form c')) = None \<and> user_id (formData (form c')) = None"
proof (cases e)
  case (InputChange name val type)
  with assms show ?thesis
    by (auto simp: handleInputChange_frame split: if_splits)
next
  case (FileUpload fl fileType getUser uuid upload)
  with assms show ?thesis
    by (auto simp: handleFileUpload_owner split: if_splits)
next
  case (Submit getUser inserted)
  with assms handleSubmit_frame [of getUser inserted "form c"] show ?thesis
    by (auto split: prod.splits)
next
  case TimerFires
  with assms show ?thesis
    by (auto simp: resetForm_def split: if_splits)
qed

lemma step_slots:
  assumes "step parseFloat getPublicUrl e c = Some c'"
    and "slots_consistent (formData (form c)) (uploadedFiles (form c))"
  shows "slots_consistent (formData (form c')) (uploadedFiles (form c'))"
proof (cases e)
  case (InputChange name val type)
  with assms show ?thesis
    by (auto simp: slots_consistent_iff handleInputChange_frame split: if_splits)
next
  case (FileUpload fl fileType getUser uuid upload)
  with assms show ?thesis
    by (auto simp: handleFileUpload_slots split: if_splits)
next
  case (Submit getUser inserted)
  with assms handleSubmit_frame [of getUser inserted "form c"] show ?thesis
    by (auto split: prod.splits)
next
  case TimerFires
  with assms show ?thesis
    by (auto simp: slots_consistent_iff resetForm_def empty_uploadedFiles_def split: if_splits)
qed

section \<open>The example draft\<close>

lemma example_email: "contact_email (formData example_state) = ''a@b.co''"
  by (simp add: example_state_def example_formData_def)

lemma example_email_ok: "test emailRegex (contact_email (formData example_state))"
  by (simp only: example_email test_emailRegex_example)

lemma example_state_valid:
  "\<not> missing_required (formData example_state) \<and> \<not> invalid_email (formData example_state) \<and>
   \<not> amount_out_of_range (formData example_state) \<and>
   \<not> missing_documents (uploadedFiles example_state)"
proof -
  have "\<not> invalid_email (formData example_state)"
    by (simp only: invalid_email_def example_email test_emailRegex_example not_not)
  moreover have "\<not> missing_required (formData example_state) \<and>
      \<not> amount_out_of_range (formData example_state) \<and>
      \<not> missing_documents (uploadedFiles example_state)"
    by (simp add: missing_required_def amount_out_of_range_def missing_documents_def
        example_state_def example_formData_def)
  ultimately show ?thesis by blast
qed

lemma handleSubmit_example:
  "snd (handleSubmit (Fulfilled (Response (Some example_user) None)) (Fulfilled (Response d e))
          example_state) =
     [AuthGetUser,
      TableInsert ''grant_applications''
        (example_formData\<lparr>user_id := Some ''user-1'', status := Some ''pending''\<rparr>)] @
     (if d \<noteq> None \<and> e = None then [SetTimeout 5000] else [])"
  using example_state_valid
  by (simp add: handleSubmit_def Let_def example_user_def split: option.split)
    (simp add: example_state_def)

section \<open>Submission\<close>

text \<open>
  C1.  A draft that passes the four checks of \<open>handleSubmit\<close>, submitted while
  \<open>getUser\<close> yields a user and no error, leads to exactly one insert call, whatever the
  insert settles with: into the table \<open>grant_applications\<close>, of the draft with
  \<open>status\<close> set to \<open>pending\<close> and \<open>user_id\<close> set to the user's id.
\<close>

theorem submit_inserts_once:
  assumes "company_name (formData s) \<noteq> []" "contact_email (formData s) \<noteq> []"
      "contact_phone (formData s) \<noteq> []" "contact_person (formData s) \<noteq> []"
      "project_description (formData s) \<noteq> []" "0 < grant_amount (formData s)"
    and "test emailRegex (contact_email (formData s))"
    and "1000 \<le> grant_amount (formData s)" "grant_amount (formData s) \<le> 1000000"
    and "business_plan (uploadedFiles s) \<noteq> None" "financial_statements (uploadedFiles s) \<noteq> None"
      "supporting_documents (uploadedFiles s) \<noteq> None"
    and "getUser = Fulfilled (Response (Some u) None)"
  shows "\<exists>r. filter is_TableInsert (snd (handleSubmit getUser inserted s)) =
               [TableInsert ''grant_applications'' r] \<and>
             status r = Some ''pending'' \<and> user_id r = Some (id_user u) \<and>
             r = (formData s)\<lparr>user_id := Some (id_user u), status := Some ''pending''\<rparr>"
proof -
  have g: "\<not> missing_required (formData s)" "\<not> invalid_email (formData s)"
    "\<not> amount_out_of_range (formData s)" "\<not> missing_documents (uploadedFiles s)"
    using assms
    by (auto simp: missing_required_def invalid_email_def amount_out_of_range_def
        missing_documents_def)
  show ?thesis
    using g assms(13)
    by (simp add: handleSubmit_def Let_def split: settled.split response.split option.split)
qed

theorem submit_inserts_once_witness:
  "test emailRegex (contact_email (formData example_state)) \<and>
   filter is_TableInsert
     (snd (handleSubmit (Fulfilled (Response (Some example_user) None)) Rejected example_state)) =
     [TableInsert ''grant_applications''
        (example_formData\<lparr>user_id := Some ''user-1'', status := Some ''pending''\<rparr>)]"
  using example_email_ok
    submit_inserts_once [where s = example_state and u = example_user
      and getUser = "Fulfilled (Response (Some example_user) None)" and inserted = Rejected]
  by (simp add: example_state_def example_formData_def example_user_def)

text \<open>
  C2.  When one of \<open>company_name\<close>, \<open>contact_email\<close>, \<open>contact_phone\<close>,
  \<open>contact_person\<close>, \<open>project_description\<close> is empty or \<open>grant_amount\<close> is not
  positive, \<open>handleSubmit\<close> ends with the message of the required-fields check and has
  made no call at all, so no insert.
\<close>

theorem submit_missing_required_field:
  assumes "company_name (formData s) = [] \<or> contact_email (formData s) = [] \<or>
           contact_phone (formData s) = [] \<or> contact_person (formData s) = [] \<or>
           project_description (formData s) = [] \<or> grant_amount (formData s) \<le> 0"
  shows "handleSubmit getUser inserted s =
           (s\<lparr>isSubmitting := False, submitMessage := ''Please fill in all required fields''\<rparr>, []) \<and>
         filter is_TableInsert (snd (handleSubmit getUser inserted s)) = []"
proof -
  from assms have "missing_required (formData s)"
    by (auto simp: missing_required_def)
  then show ?thesis
    by (simp add: handleSubmit_def Let_def)
qed

theorem submit_missing_required_field_witness:
  "company_name (formData initial_state) = [] \<and>
   handleSubmit (Fulfilled (Response (Some example_user) None)) Rejected initial_state =
     (initial_state\<lparr>isSubmitting := False,
        submitMessage := ''Please fill in all required fields''\<rparr>, [])"
  using submit_missing_required_field [where s = initial_state
      and getUser = "Fulfilled (Response (Some example_user) None)" and inserted = Rejected]
  by (simp add: initial_state_def initial_formData_def)

section \<open>Uploads\<close>

text \<open>
  C3.  A selected file of more than 10 * 1024 * 1024 bytes: \<open>handleFileUpload\<close> makes no
  call, and the state it leaves differs from the one it found in \<open>submitMessage\<close> only
  (the draft, the recorded files and the progress flags are as before).
\<close>

theorem upload_over_10MiB_rejected:
  assumes "size_file f > 10 * 1024 * 1024"
  shows "handleFileUpload (Some f) fileType getUser uuid upload getPublicUrl s =
           (s\<lparr>submitMessage := ''File size must be less than 10MB''\<rparr>, [])"
  using assms by (simp add: handleFileUpload_def Let_def)

theorem upload_over_10MiB_rejected_witness:
  "size_file example_big_file > 10 * 1024 * 1024 \<and>
   handleFileUpload (Some example_big_file) ''business_plan''
       (Fulfilled (Response (Some example_user) None)) ''u-1''
       (Fulfilled (Response (Some (UploadData ''user-1/u-1.pdf'')) None)) (\<lambda>p. p) initial_state =
     (initial_state\<lparr>submitMessage := ''File size must be less than 10MB''\<rparr>, [])"
  using upload_over_10MiB_rejected [where f = example_big_file and s = initial_state
      and fileType = "''business_plan''" and getUser = "Fulfilled (Response (Some example_user) None)"
      and uuid = "''u-1''" and upload = "Fulfilled (Response (Some (UploadData ''user-1/u-1.pdf'')) None)"
      and getPublicUrl = "\<lambda>p. p"]
  by (simp add: example_big_file_def)

text \<open>
  C4.  A file within the size limit, selected in one of the three rendered slots while
  \<open>getUser\<close> yields a user: the file is uploaded once, to the path made of the user's
  id, \<open>/\<close>, the generated UUID, a dot and the file's extension.  If the upload yields data
  and no error, the public URL of the stored path is written to the draft's property
  \<open>{slot}_url\<close>, the file is recorded for the slot and the progress flag is off.  If it
  yields an error, the message shown carries the error's message, and the draft and the
  recorded files are as before.  In every outcome other than data without error (a
  rejected promise included) the draft and the recorded files are as before.
\<close>

theorem upload_outcome:
  assumes "size_file f \<le> 10 * 1024 * 1024"
    and "getUser = Fulfilled (Response (Some u) None)"
    and "fileType \<in> set rendered_uploads"
    and "handleFileUpload (Some f) fileType getUser uuid upload getPublicUrl s = (s', calls)"
  shows "filter is_StorageUpload calls =
           [StorageUpload ''grant-documents''
              (id_user u @ ''/'' @ uuid @ ''.'' @ last (split_string CHR ''.'' (name_file f))) f] \<and>
         (\<forall>d. upload = Fulfilled (Response (Some d) None) \<longrightarrow>
            get_optional_property (fileType @ ''_url'') (formData s') = Some (getPublicUrl (path d)) \<and>
            get_file_property fileType (uploadedFiles s') = Some f \<and>
            formData s' = set_string_property (fileType @ ''_url'') (getPublicUrl (path d)) (formData s) \<and>
            uploadedFiles s' = set_file_property fileType f (uploadedFiles s) \<and>
            uploadProgress s' fileType = Some False) \<and>
         (\<forall>d err. upload = Fulfilled (Response d (Some err)) \<longrightarrow>
            submitMessage s' =
              ''Error uploading '' @ replace_string CHR ''_'' CHR '' '' fileType @ '': '' @ message err \<and>
            formData s' = formData s \<and> uploadedFiles s' = uploadedFiles s) \<and>
         ((\<forall>d. upload \<noteq> Fulfilled (Response (Some d) None)) \<longrightarrow>
            formData s' = formData s \<and> uploadedFiles s' = uploadedFiles s)"
proof -
  from assms(3) consider "fileType = ''business_plan''" | "fileType = ''financial_statements''"
    | "fileType = ''supporting_documents''"
    by (auto simp: rendered_uploads_def)
  then show ?thesis
  proof cases
    case 1
    with assms(1,2,4) show ?thesis
      by (auto simp: handleFileUpload_def Let_def set_string_property_def set_file_property_def
          get_optional_property_def get_file_property_def
          split: settled.splits response.splits option.splits)
  next
    case 2
    with assms(1,2,4) show ?thesis
      by (auto simp: handleFileUpload_def Let_def set_string_property_def set_file_property_def
          get_optional_property_def get_file_property_def
          split: settled.splits response.splits option.splits)
  next
    case 3
    with assms(1,2,4) show ?thesis
      by (auto simp: handleFileUpload_def Let_def set_string_property_def set_file_property_def
          get_optional_property_def get_file_property_def
          split: settled.splits response.splits option.splits)
  qed
qed

theorem upload_outcome_witness:
  "size_file example_file \<le> 10 * 1024 * 1024 \<and>
   ''business_plan'' \<in> set rendered_uploads \<and>
   filter is_StorageUpload
     (snd (handleFileUpload (Some example_file) ''business_plan''
        (Fulfilled (Response (Some example_user) None)) ''u-1''
        (Fulfilled (Response (Some (UploadData ''user-1/u-1.pdf'')) None))
        (\<lambda>p. ''https://cdn/'' @ p) initial_state)) =
     [StorageUpload ''grant-documents'' ''user-1/u-1.pdf'' example_file] \<and>
   business_plan_url (formData (fst (handleFileUpload (Some example_file) ''business_plan''
        (Fulfilled (Response (Some example_user) None)) ''u-1''
        (Fulfilled (Response (Some (UploadData ''user-1/u-1.pdf'')) None))
        (\<lambda>p. ''https://cdn/'' @ p) initial_state))) = Some ''https://cdn/user-1/u-1.pdf'' \<and>
   business_plan (uploadedFiles (fst (handleFileUpload (Some example_file) ''business_plan''
        (Fulfilled (Response (Some example_user) None)) ''u-1''
        (Fulfilled (Response (Some (UploadData ''user-1/u-1.pdf'')) None))
        (\<lambda>p. ''https://cdn/'' @ p) initial_state))) = Some example_file \<and>
   submitMessage (fst (handleFileUpload (Some example_file) ''business_plan''
        (Fulfilled (Response (Some example_user) None)) ''u-1''
        (Fulfilled (Response None (Some (ApiError ''quota exceeded''))))
        (\<lambda>p. ''https://cdn/'' @ p) initial_state)) = ''Error uploading business plan: quota exceeded'' \<and>
   formData (fst (handleFileUpload (Some example_file) ''business_plan''
        (Fulfilled (Response (Some example_user) None)) ''u-1''
        (Fulfilled (Response None (Some (ApiError ''quota exceeded''))))
        (\<lambda>p. ''https://cdn/'' @ p) initial_state)) = initial_formData"
proof -
  have size: "size_file example_file \<le> 10 * 1024 * 1024"
    by (simp add: example_file_def)
  have slot: "''business_plan'' \<in> set rendered_uploads"
    by (simp add: rendered_uploads_def)
  note ok = upload_outcome [OF size refl slot surjective_pairing,
      where u = example_user and uuid = "''u-1''"
        and upload = "Fulfilled (Response (Some (UploadData ''user-1/u-1.pdf'')) None)"
        and getPublicUrl = "\<lambda>p. ''https://cdn/'' @ p" and s = initial_state]
  note failed = upload_outcome [OF size refl slot surjective_pairing,
      where u = example_user and uuid = "''u-1''"
        and upload = "Fulfilled (Response None (Some (ApiError ''quota exceeded'')))"
        and getPublicUrl = "\<lambda>p. ''https://cdn/'' @ p" and s = initial_state]
  from size slot ok failed show ?thesis
    by (simp add: example_user_def example_file_def get_optional_property_def
        get_file_property_def set_string_property_def set_file_property_def initial_state_def)
qed

section \<open>Validation\<close>

text \<open>
  C5.  With the five text fields filled in and an address the pattern accepts, a
  \<open>grant_amount\<close> below 1000 or above 1000000 ends \<open>handleSubmit\<close> without a call and
  with a validation message (that of the required-fields check when the amount is not
  positive, that of the range check otherwise).  At 1000 and at 1000000 the range check
  passes: its message is not shown, and with the three documents recorded and a user the
  insert call is made.
\<close>

theorem grant_amount_range:
  assumes "company_name (formData s) \<noteq> []" "contact_email (formData s) \<noteq> []"
      "contact_phone (formData s) \<noteq> []" "contact_person (formData s) \<noteq> []"
      "project_description (formData s) \<noteq> []"
    and "test emailRegex (contact_email (formData s))"
  shows "((grant_amount (formData s) < 1000 \<or> 1000000 < grant_amount (formData s)) \<longrightarrow>
            handleSubmit getUser inserted s =
              (s\<lparr>isSubmitting := False,
                 submitMessage :=
                   (if grant_amount (formData s) \<le> 0 then ''Please fill in all required fields''
                    else ''Grant amount must be between $1,000 and $1,000,000'')\<rparr>, [])) \<and>
         ((grant_amount (formData s) = 1000 \<or> grant_amount (formData s) = 1000000) \<longrightarrow>
            \<not> amount_out_of_range (formData s) \<and>
            submitMessage (fst (handleSubmit getUser inserted s)) \<noteq>
              ''Grant amount must be between $1,000 and $1,000,000'' \<and>
            (\<forall>u. \<not> missing_documents (uploadedFiles s) \<and> getUser = Fulfilled (Response (Some u) None) \<longrightarrow>
                 filter is_TableInsert (snd (handleSubmit getUser inserted s)) \<noteq> []))"
proof -
  have e: "\<not> invalid_email (formData s)" using assms(6) by (simp add: invalid_email_def)
  have m: "missing_required (formData s) \<longleftrightarrow> grant_amount (formData s) \<le> 0"
    using assms(1-5) by (simp add: missing_required_def)
  show ?thesis
    using e m
    by (auto simp: handleSubmit_def Let_def amount_out_of_range_def
        split: settled.splits response.splits option.splits)
qed

theorem grant_amount_range_witness:
  "test emailRegex (contact_email (formData example_state)) \<and>
   grant_amount (formData example_state) = 1000 \<and>
   \<not> amount_out_of_range (formData example_state) \<and>
   filter is_TableInsert
     (snd (handleSubmit (Fulfilled (Response (Some example_user) None)) Rejected example_state)) \<noteq> [] \<and>
   handleSubmit (Fulfilled (Response (Some example_user) None)) Rejected
       (example_state\<lparr>formData := example_formData\<lparr>grant_amount := 999\<rparr>\<rparr>) =
     (example_state\<lparr>formData := example_formData\<lparr>grant_amount := 999\<rparr>, isSubmitting := False,
        submitMessage := ''Grant amount must be between $1,000 and $1,000,000''\<rparr>, [])"
proof -
  have e: "test emailRegex (contact_email (formData example_state))"
    by (rule example_email_ok)
  have e': "test emailRegex
      (contact_email (formData (example_state\<lparr>formData := example_formData\<lparr>grant_amount := 999\<rparr>\<rparr>)))"
    using test_emailRegex_example by (simp add: example_formData_def)
  have docs: "\<not> missing_documents (uploadedFiles example_state)"
    using example_state_valid by simp
  note at_bound = grant_amount_range [OF _ _ _ _ _ e,
      where getUser = "Fulfilled (Response (Some example_user) None)" and inserted = Rejected]
  note below = grant_amount_range [OF _ _ _ _ _ e',
      where getUser = "Fulfilled (Response (Some example_user) None)" and inserted = Rejected]
  have amount: "grant_amount (formData example_state) = 1000"
    by (simp add: example_state_def example_formData_def)
  have filled: "company_name (formData example_state) \<noteq> []" "contact_email (formData example_state) \<noteq> []"
    "contact_phone (formData example_state) \<noteq> []" "contact_person (formData example_state) \<noteq> []"
    "project_description (formData example_state) \<noteq> []"
    by (simp_all add: example_state_def example_formData_def)
  from at_bound [OF filled] amount docs
  have 1: "\<not> amount_out_of_range (formData example_state) \<and>
     filter is_TableInsert
       (snd (handleSubmit (Fulfilled (Response (Some example_user) None)) Rejected example_state)) \<noteq> []"
    by simp
  from below have 2: "handleSubmit (Fulfilled (Response (Some example_user) None)) Rejected
       (example_state\<lparr>formData := example_formData\<lparr>grant_amount := 999\<rparr>\<rparr>) =
     (example_state\<lparr>formData := example_formData\<lparr>grant_amount := 999\<rparr>, isSubmitting := False,
        submitMessage := ''Grant amount must be between $1,000 and $1,000,000''\<rparr>, [])"
    by (simp add: example_formData_def)
  from e amount 1 2 show ?thesis by blast
qed


text \<open>
  C6.  With the required-fields check passed, an address without \<open>@\<close>, or without a dot
  after its \<open>@\<close>, ends \<open>handleSubmit\<close> without a call and with the message of the
  address check; the address \<open>a@b.co\<close> passes that check.  (When the required-fields check
  fails, its message is the one shown, whatever the address.)
\<close>

theorem malformed_email_rejected:
  assumes "company_name (formData s) \<noteq> []" "contact_email (formData s) \<noteq> []"
      "contact_phone (formData s) \<noteq> []" "contact_person (formData s) \<noteq> []"
      "project_description (formData s) \<noteq> []" "0 < grant_amount (formData s)"
    and "CHR ''@'' \<notin> set (contact_email (formData s)) \<or>
         CHR ''.'' \<notin> set (domain_part (contact_email (formData s)))"
  shows "handleSubmit getUser inserted s =
           (s\<lparr>isSubmitting := False, submitMessage := ''Please enter a valid email address''\<rparr>, []) \<and>
         (\<forall>d. contact_email d = ''a@b.co'' \<longrightarrow> \<not> invalid_email d)"
proof -
  have m: "\<not> missing_required (formData s)"
    using assms(1-6) by (simp add: missing_required_def)
  have e: "invalid_email (formData s)"
    using assms(7) test_emailRegex_shape [of "contact_email (formData s)"]
    by (auto simp: invalid_email_def)
  from m e have "handleSubmit getUser inserted s =
           (s\<lparr>isSubmitting := False, submitMessage := ''Please enter a valid email address''\<rparr>, [])"
    by (simp add: handleSubmit_def Let_def)
  moreover have "\<forall>d. contact_email d = ''a@b.co'' \<longrightarrow> \<not> invalid_email d"
    using test_emailRegex_example by (simp add: invalid_email_def)
  ultimately show ?thesis by blast
qed

theorem malformed_email_rejected_witness:
  "CHR ''.'' \<notin> set (domain_part (contact_email (example_formData\<lparr>contact_email := ''ann@localhost''\<rparr>))) \<and>
   handleSubmit (Fulfilled (Response (Some example_user) None)) Rejected
       (example_state\<lparr>formData := example_formData\<lparr>contact_email := ''ann@localhost''\<rparr>\<rparr>) =
     (example_state\<lparr>formData := example_formData\<lparr>contact_email := ''ann@localhost''\<rparr>,
        isSubmitting := False, submitMessage := ''Please enter a valid email address''\<rparr>, []) \<and>
   \<not> invalid_email example_formData"
proof -
  have dot: "CHR ''.'' \<notin> set (domain_part (contact_email (example_formData\<lparr>contact_email := ''ann@localhost''\<rparr>)))"
    by (simp add: domain_part_def)
  have ex: "contact_email example_formData = ''a@b.co''"
    by (simp add: example_formData_def)
  from malformed_email_rejected [where s = "example_state\<lparr>formData := example_formData\<lparr>contact_email := ''ann@localhost''\<rparr>\<rparr>"
      and getUser = "Fulfilled (Response (Some example_user) None)" and inserted = Rejected] dot
  have "handleSubmit (Fulfilled (Response (Some example_user) None)) Rejected
       (example_state\<lparr>formData := example_formData\<lparr>contact_email := ''ann@localhost''\<rparr>\<rparr>) =
     (example_state\<lparr>formData := example_formData\<lparr>contact_email := ''ann@localhost''\<rparr>,
        isSubmitting := False, submitMessage := ''Please enter a valid email address''\<rparr>, []) \<and>
     (\<forall>d. contact_email d = ''a@b.co'' \<longrightarrow> \<not> invalid_email d)"
    by (simp add: example_formData_def)
  with dot ex show ?thesis by blast
qed

text \<open>
  C6 without the proviso does not hold: with only the address field filled in, and that
  with a word that has no \<open>@\<close>, the message is that of the required-fields check.
\<close>

theorem malformed_email_counterexample:
  "CHR ''@'' \<notin> set (contact_email (formData
      (initial_state\<lparr>formData := initial_formData\<lparr>contact_email := ''nobody''\<rparr>\<rparr>))) \<and>
   submitMessage (fst (handleSubmit Rejected Rejected
       (initial_state\<lparr>formData := initial_formData\<lparr>contact_email := ''nobody''\<rparr>\<rparr>))) =
     ''Please fill in all required fields'' \<and>
   submitMessage (fst (handleSubmit Rejected Rejected
       (initial_state\<lparr>formData := initial_formData\<lparr>contact_email := ''nobody''\<rparr>\<rparr>))) \<noteq>
     ''Please enter a valid email address''"
  by (simp add: handleSubmit_def Let_def missing_required_def initial_state_def initial_formData_def)

section \<open>The outcome of the insert\<close>

text \<open>
  C7.  When \<open>handleSubmit\<close> has made its insert call and the insert yields an error, the
  message shown is \<open>Error submitting application: \<close> followed by the error's message, the
  draft and the recorded files are as they were, and no timeout is set, so nothing will
  reset them.
\<close>

theorem insert_failure_preserves_draft:
  assumes "handleSubmit getUser inserted s = (s', calls)"
    and "\<exists>t r. TableInsert t r \<in> set calls"
    and "inserted = Fulfilled (Response d (Some err))"
  shows "submitMessage s' = ''Error submitting application: '' @ message err \<and>
         formData s' = formData s \<and> uploadedFiles s' = uploadedFiles s \<and>
         filter is_SetTimeout calls = []"
proof -
  from handleSubmit_frame [of getUser inserted s] assms(1)
  have frame: "formData s' = formData s \<and> uploadedFiles s' = uploadedFiles s" by simp
  from assms have "submitMessage s' = ''Error submitting application: '' @ message err \<and>
         filter is_SetTimeout calls = []"
    by (auto simp: handleSubmit_def Let_def
        split: if_splits settled.splits response.splits option.splits)
  with frame show ?thesis by simp
qed

theorem insert_failure_preserves_draft_witness:
  "TableInsert ''grant_applications''
       (example_formData\<lparr>user_id := Some ''user-1'', status := Some ''pending''\<rparr>)
     \<in> set (snd (handleSubmit (Fulfilled (Response (Some example_user) None))
                  (Fulfilled (Response None (Some (ApiError ''duplicate key'')))) example_state)) \<and>
   submitMessage (fst (handleSubmit (Fulfilled (Response (Some example_user) None))
                  (Fulfilled (Response None (Some (ApiError ''duplicate key'')))) example_state)) =
     ''Error submitting application: duplicate key'' \<and>
   formData (fst (handleSubmit (Fulfilled (Response (Some example_user) None))
                  (Fulfilled (Response None (Some (ApiError ''duplicate key'')))) example_state)) =
     example_formData"
proof -
  have made: "TableInsert ''grant_applications''
       (example_formData\<lparr>user_id := Some ''user-1'', status := Some ''pending''\<rparr>)
     \<in> set (snd (handleSubmit (Fulfilled (Response (Some example_user) None))
                  (Fulfilled (Response None (Some (ApiError ''duplicate key'')))) example_state))"
    by (simp add: handleSubmit_example)
  then have "\<exists>t r. TableInsert t r
     \<in> set (snd (handleSubmit (Fulfilled (Response (Some example_user) None))
                  (Fulfilled (Response None (Some (ApiError ''duplicate key'')))) example_state))"
    by blast
  from insert_failure_preserves_draft [OF surjective_pairing this refl] made
  show ?thesis by (simp add: example_state_def)
qed

text \<open>
  C8.  When \<open>handleSubmit\<close> has made its insert call and the insert yields a stored
  record and no error, the message shown contains the record's id, and one timeout of
  5000 ms is set.  When it expires the draft is the initial one with \<open>grant_amount\<close> 0
  (every text field empty, no URL) and no file is recorded for any slot, whatever the
  state was by then.
\<close>

theorem successful_submission_confirms_and_resets:
  assumes "handleSubmit getUser inserted s = (s', calls)"
    and "\<exists>t r. TableInsert t r \<in> set calls"
    and "inserted = Fulfilled (Response (Some d) None)"
  shows "submitMessage s' =
           ''Application submitted successfully! Application ID: '' @ id_record d @ ''.'' \<and>
         filter is_SetTimeout calls = [SetTimeout 5000] \<and>
         (\<exists>c'. run parseFloat getPublicUrl [Submit getUser inserted, TimerFires]
                  \<lparr>form = s, timers = n\<rparr> = Some c' \<and>
               formData (form c') = initial_formData\<lparr>grant_amount := 0\<rparr> \<and>
               uploadedFiles (form c') = empty_uploadedFiles) \<and>
         (\<forall>t. formData (resetForm t) = initial_formData\<lparr>grant_amount := 0\<rparr> \<and>
              uploadedFiles (resetForm t) = empty_uploadedFiles)"
proof -
  from assms have a: "submitMessage s' =
           ''Application submitted successfully! Application ID: '' @ id_record d @ ''.'' \<and>
         filter is_SetTimeout calls = [SetTimeout 5000]"
    by (auto simp: handleSubmit_def Let_def
        split: if_splits settled.splits response.splits option.splits)
  have r: "\<forall>t. formData (resetForm t) = initial_formData\<lparr>grant_amount := 0\<rparr> \<and>
              uploadedFiles (resetForm t) = empty_uploadedFiles"
    by (simp add: resetForm_def initial_formData_def)
  from a assms(1) r show ?thesis by simp
qed

theorem successful_submission_confirms_and_resets_witness:
  "TableInsert ''grant_applications''
       (example_formData\<lparr>user_id := Some ''user-1'', status := Some ''pending''\<rparr>)
     \<in> set (snd (handleSubmit (Fulfilled (Response (Some example_user) None))
                  (Fulfilled (Response (Some (StoredRecord ''42'')) None)) example_state)) \<and>
   submitMessage (fst (handleSubmit (Fulfilled (Response (Some example_user) None))
                  (Fulfilled (Response (Some (StoredRecord ''42'')) None)) example_state)) =
     ''Application submitted successfully! Application ID: 42.'' \<and>
   filter is_SetTimeout (snd (handleSubmit (Fulfilled (Response (Some example_user) None))
                  (Fulfilled (Response (Some (StoredRecord ''42'')) None)) example_state)) =
     [SetTimeout 5000] \<and>
   formData (resetForm example_state) = initial_formData\<lparr>grant_amount := 0\<rparr> \<and>
   uploadedFiles (resetForm example_state) = empty_uploadedFiles"
proof -
  have made: "TableInsert ''grant_applications''
       (example_formData\<lparr>user_id := Some ''user-1'', status := Some ''pending''\<rparr>)
     \<in> set (snd (handleSubmit (Fulfilled (Response (Some example_user) None))
                  (Fulfilled (Response (Some (StoredRecord ''42'')) None)) example_state))"
    by (simp add: handleSubmit_example)
  then have "\<exists>t r. TableInsert t r
     \<in> set (snd (handleSubmit (Fulfilled (Response (Some example_user) None))
                  (Fulfilled (Response (Some (StoredRecord ''42'')) None)) example_state))"
    by blast
  from successful_submission_confirms_and_resets [OF surjective_pairing this refl] made
  show ?thesis by simp
qed

section \<open>Invariants of the draft\<close>

text \<open>
  C9.  In every state the form reaches from its initial state, by input changes on the
  rendered inputs, uploads in the rendered slots, submissions and expiring timeouts, the
  draft has neither \<open>status\<close> nor \<open>user_id\<close>; and every record that \<open>handleSubmit\<close>
  passes to the insert call from such a state has \<open>status\<close> \<open>pending\<close> and a
  \<open>user_id\<close>.
\<close>

theorem draft_never_carries_status_or_owner:
  assumes "run parseFloat getPublicUrl es initial_client = Some c"
  shows "status (formData (form c)) = None \<and> user_id (formData (form c)) = None \<and>
         (\<forall>getUser inserted t r.
            TableInsert t r \<in> set (snd (handleSubmit getUser inserted (form c))) \<longrightarrow>
              status r = Some ''pending'' \<and> user_id r \<noteq> None)"
proof -
  have "status (formData (form initial_client)) = None \<and>
        user_id (formData (form initial_client)) = None"
    by (simp add: initial_client_def initial_state_def initial_formData_def)
  with assms have "status (formData (form c)) = None \<and> user_id (formData (form c)) = None"
    by (rule run_invariant) (rule step_owner)
  then show ?thesis
    using handleSubmit_insert_record by blast
qed

theorem draft_never_carries_status_or_owner_witness:
  "run (\<lambda>v. None) (\<lambda>p. p) [InputChange ''company_name'' ''Acme'' ''text'', Submit Rejected Rejected]
      initial_client =
     Some \<lparr>form = initial_state\<lparr>formData := initial_formData\<lparr>company_name := ''Acme''\<rparr>,
                     submitMessage := ''Please fill in all required fields''\<rparr>, timers = 0\<rparr> \<and>
   status (formData (initial_state\<lparr>formData := initial_formData\<lparr>company_name := ''Acme''\<rparr>,
                     submitMessage := ''Please fill in all required fields''\<rparr>)) = None \<and>
   user_id (formData (initial_state\<lparr>formData := initial_formData\<lparr>company_name := ''Acme''\<rparr>,
                     submitMessage := ''Please fill in all required fields''\<rparr>)) = None"
proof -
  have r: "run (\<lambda>v. None) (\<lambda>p. p)
      [InputChange ''company_name'' ''Acme'' ''text'', Submit Rejected Rejected] initial_client =
     Some \<lparr>form = initial_state\<lparr>formData := initial_formData\<lparr>company_name := ''Acme''\<rparr>,
                     submitMessage := ''Please fill in all required fields''\<rparr>, timers = 0\<rparr>"
    by (simp add: initial_client_def initial_state_def initial_formData_def rendered_inputs_def
        handleInputChange_def set_string_property_def handleSubmit_def Let_def
        missing_required_def)
  from draft_never_carries_status_or_owner [OF r] r show ?thesis by simp
qed

section \<open>What each handler does to a slot\<close>

lemma handleFileUpload_success:
  assumes "fileType \<in> set rendered_uploads" and "size_file f \<le> 10 * 1024 * 1024"
  shows "get_file_property fileType (uploadedFiles (fst (handleFileUpload (Some f) fileType
             (Fulfilled (Response (Some u) None)) uuid (Fulfilled (Response (Some d) None))
             getPublicUrl s))) = Some f \<and>
         get_optional_property (fileType @ ''_url'') (formData (fst (handleFileUpload (Some f) fileType
             (Fulfilled (Response (Some u) None)) uuid (Fulfilled (Response (Some d) None))
             getPublicUrl s))) = Some (getPublicUrl (path d)) \<and>
         (\<forall>slot \<in> set rendered_uploads. slot \<noteq> fileType \<longrightarrow>
            get_file_property slot (uploadedFiles (fst (handleFileUpload (Some f) fileType
               (Fulfilled (Response (Some u) None)) uuid (Fulfilled (Response (Some d) None))
               getPublicUrl s))) = get_file_property slot (uploadedFiles s) \<and>
            get_optional_property (slot @ ''_url'') (formData (fst (handleFileUpload (Some f) fileType
               (Fulfilled (Response (Some u) None)) uuid (Fulfilled (Response (Some d) None))
               getPublicUrl s))) = get_optional_property (slot @ ''_url'') (formData s))"
proof -
  from assms(1) consider "fileType = ''business_plan''" | "fileType = ''financial_statements''"
    | "fileType = ''supporting_documents''"
    by (auto simp: rendered_uploads_def)
  then show ?thesis
  proof cases
    case 1
    with assms(2) show ?thesis
      by (simp add: rendered_uploads_def handleFileUpload_def Let_def set_string_property_def
          set_file_property_def get_optional_property_def get_file_property_def)
  next
    case 2
    with assms(2) show ?thesis
      by (simp add: rendered_uploads_def handleFileUpload_def Let_def set_string_property_def
          set_file_property_def get_optional_property_def get_file_property_def)
  next
    case 3
    with assms(2) show ?thesis
      by (simp add: rendered_uploads_def handleFileUpload_def Let_def set_string_property_def
          set_file_property_def get_optional_property_def get_file_property_def)
  qed
qed

lemma handleFileUpload_unsuccessful:
  assumes "\<not> (\<exists>f u d. selected = Some f \<and> size_file f \<le> 10 * 1024 * 1024 \<and>
              getUser = Fulfilled (Response (Some u) None) \<and>
              upload = Fulfilled (Response (Some d) None))"
  shows "formData (fst (handleFileUpload selected fileType getUser uuid upload getPublicUrl s)) =
           formData s \<and>
         uploadedFiles (fst (handleFileUpload selected fileType getUser uuid upload getPublicUrl s)) =
           uploadedFiles s"
proof -
  from assms have "selected = None \<or> (\<exists>f. selected = Some f \<and> 10 * 1024 * 1024 < size_file f) \<or>
      (\<forall>u. getUser \<noteq> Fulfilled (Response (Some u) None)) \<or>
      (\<forall>d. upload \<noteq> Fulfilled (Response (Some d) None))"
    by (cases selected) (auto simp: not_le)
  then show ?thesis
    by (auto simp: handleFileUpload_def Let_def
        split: settled.splits response.splits option.splits)
qed

lemma handleInputChange_slot:
  assumes "(name, type) \<in> set rendered_inputs" and "slot \<in> set rendered_uploads"
  shows "get_file_property slot (uploadedFiles (handleInputChange parseFloat name val type s)) =
           get_file_property slot (uploadedFiles s) \<and>
         get_optional_property (slot @ ''_url'') (formData (handleInputChange parseFloat name val type s)) =
           get_optional_property (slot @ ''_url'') (formData s)"
proof -
  from assms(2) consider "slot = ''business_plan''" | "slot = ''financial_statements''"
    | "slot = ''supporting_documents''"
    by (auto simp: rendered_uploads_def)
  then show ?thesis
    using handleInputChange_frame [OF assms(1), of parseFloat val s]
    by cases (simp_all add: get_file_property_def get_optional_property_def)
qed

lemma resetForm_slot:
  assumes "slot \<in> set rendered_uploads"
  shows "get_file_property slot (uploadedFiles (resetForm s)) = None \<and>
         get_optional_property (slot @ ''_url'') (formData (resetForm s)) = None"
proof -
  from assms consider "slot = ''business_plan''" | "slot = ''financial_statements''"
    | "slot = ''supporting_documents''"
    by (auto simp: rendered_uploads_def)
  then show ?thesis
    by cases (simp_all add: resetForm_def empty_uploadedFiles_def get_file_property_def
        get_optional_property_def)
qed

text \<open>
  C10.  In every state \<open>c\<close> the form reaches from its initial state, and for each of the
  three slots: a file is recorded for the slot exactly when the draft has the slot's URL
  property.  From such a state,
  \<^item> an upload that succeeds (a file within the size limit, a user, and data without an
    error from the storage) leaves the file recorded for its slot and the URL in the draft,
    and leaves the other slots as they were;
  \<^item> every other upload (no file, a file over the limit, no user, an error or no data from
    the storage, a rejected promise) leaves the whole draft and all recorded files as they
    were;
  \<^item> a change of a rendered input leaves the slot's file and URL as they were;
  \<^item> \<open>handleSubmit\<close> leaves the draft and the recorded files as they were;
  \<^item> an expiring timeout runs \<open>resetForm\<close>, after which the slot has neither file nor URL.
\<close>

theorem slot_file_iff_url:
  assumes "run parseFloat getPublicUrl es initial_client = Some c"
    and "slot \<in> set rendered_uploads"
  shows "((get_file_property slot (uploadedFiles (form c)) \<noteq> None) =
          (get_optional_property (slot @ ''_url'') (formData (form c)) \<noteq> None)) \<and>
         (size_file f \<le> 10 * 1024 * 1024 \<longrightarrow>
            get_file_property slot (uploadedFiles (fst (handleFileUpload (Some f) slot
               (Fulfilled (Response (Some u) None)) uuid (Fulfilled (Response (Some d) None))
               getPublicUrl (form c)))) = Some f \<and>
            get_optional_property (slot @ ''_url'') (formData (fst (handleFileUpload (Some f) slot
               (Fulfilled (Response (Some u) None)) uuid (Fulfilled (Response (Some d) None))
               getPublicUrl (form c)))) = Some (getPublicUrl (path d))) \<and>
         (size_file f \<le> 10 * 1024 * 1024 \<and> fileType \<in> set rendered_uploads \<and> fileType \<noteq> slot \<longrightarrow>
            get_file_property slot (uploadedFiles (fst (handleFileUpload (Some f) fileType
               (Fulfilled (Response (Some u) None)) uuid (Fulfilled (Response (Some d) None))
               getPublicUrl (form c)))) = get_file_property slot (uploadedFiles (form c)) \<and>
            get_optional_property (slot @ ''_url'') (formData (fst (handleFileUpload (Some f) fileType
               (Fulfilled (Response (Some u) None)) uuid (Fulfilled (Response (Some d) None))
               getPublicUrl (form c)))) = get_optional_property (slot @ ''_url'') (formData (form c))) \<and>
         (\<not> (\<exists>f u d. selected = Some f \<and> size_file f \<le> 10 * 1024 * 1024 \<and>
                getUser = Fulfilled (Response (Some u) None) \<and>
                upload = Fulfilled (Response (Some d) None)) \<longrightarrow>
            formData (fst (handleFileUpload selected fileType getUser uuid upload getPublicUrl (form c))) =
              formData (form c) \<and>
            uploadedFiles (fst (handleFileUpload selected fileType getUser uuid upload getPublicUrl (form c))) =
              uploadedFiles (form c)) \<and>
         ((name, type) \<in> set rendered_inputs \<longrightarrow>
            get_file_property slot (uploadedFiles (handleInputChange parseFloat name val type (form c))) =
              get_file_property slot (uploadedFiles (form c)) \<and>
            get_optional_property (slot @ ''_url'')
                (formData (handleInputChange parseFloat name val type (form c))) =
              get_optional_property (slot @ ''_url'') (formData (form c))) \<and>
         (formData (fst (handleSubmit getUser inserted (form c))) = formData (form c) \<and>
          uploadedFiles (fst (handleSubmit getUser inserted (form c))) = uploadedFiles (form c)) \<and>
         (0 < timers c \<longrightarrow>
            step parseFloat getPublicUrl TimerFires c =
              Some \<lparr>form = resetForm (form c), timers = timers c - 1\<rparr>) \<and>
         (get_file_property slot (uploadedFiles (resetForm (form c))) = None \<and>
          get_optional_property (slot @ ''_url'') (formData (resetForm (form c))) = None)"
proof -
  have "slots_consistent (formData (form initial_client)) (uploadedFiles (form initial_client))"
    by (simp add: slots_consistent_iff initial_client_def initial_state_def initial_formData_def
        empty_uploadedFiles_def)
  with assms(1) have "slots_consistent (formData (form c)) (uploadedFiles (form c))"
    by (rule run_invariant) (rule step_slots)
  with assms(2) have inv: "(get_file_property slot (uploadedFiles (form c)) \<noteq> None) =
          (get_optional_property (slot @ ''_url'') (formData (form c)) \<noteq> None)"
    by (simp only: slots_consistent_def)
  have own: "size_file f \<le> 10 * 1024 * 1024 \<longrightarrow>
            get_file_property slot (uploadedFiles (fst (handleFileUpload (Some f) slot
               (Fulfilled (Response (Some u) None)) uuid (Fulfilled (Response (Some d) None))
               getPublicUrl (form c)))) = Some f \<and>
            get_optional_property (slot @ ''_url'') (formData (fst (handleFileUpload (Some f) slot
               (Fulfilled (Response (Some u) None)) uuid (Fulfilled (Response (Some d) None))
               getPublicUrl (form c)))) = Some (getPublicUrl (path d))"
    using handleFileUpload_success [OF assms(2), of f u uuid d getPublicUrl "form c"] by blast
  have other: "size_file f \<le> 10 * 1024 * 1024 \<and> fileType \<in> set rendered_uploads \<and> fileType \<noteq> slot \<longrightarrow>
            get_file_property slot (uploadedFiles (fst (handleFileUpload (Some f) fileType
               (Fulfilled (Response (Some u) None)) uuid (Fulfilled (Response (Some d) None))
               getPublicUrl (form c)))) = get_file_property slot (uploadedFiles (form c)) \<and>
            get_optional_property (slot @ ''_url'') (formData (fst (handleFileUpload (Some f) fileType
               (Fulfilled (Response (Some u) None)) uuid (Fulfilled (Response (Some d) None))
               getPublicUrl (form c)))) = get_optional_property (slot @ ''_url'') (formData (form c))"
  proof (intro impI)
    assume a: "size_file f \<le> 10 * 1024 * 1024 \<and> fileType \<in> set rendered_uploads \<and> fileType \<noteq> slot"
    then have "fileType \<in> set rendered_uploads" "size_file f \<le> 10 * 1024 * 1024" "slot \<noteq> fileType"
      by auto
    from handleFileUpload_success [OF this(1,2), of u uuid d getPublicUrl "form c", THEN conjunct2,
        THEN conjunct2, THEN bspec, OF assms(2), THEN mp, OF this(3)]
    show "get_file_property slot (uploadedFiles (fst (handleFileUpload (Some f) fileType
               (Fulfilled (Response (Some u) None)) uuid (Fulfilled (Response (Some d) None))
               getPublicUrl (form c)))) = get_file_property slot (uploadedFiles (form c)) \<and>
            get_optional_property (slot @ ''_url'') (formData (fst (handleFileUpload (Some f) fileType
               (Fulfilled (Response (Some u) None)) uuid (Fulfilled (Response (Some d) None))
               getPublicUrl (form c)))) = get_optional_property (slot @ ''_url'') (formData (form c))" .
  qed
  have failed: "\<not> (\<exists>f u d. selected = Some f \<and> size_file f \<le> 10 * 1024 * 1024 \<and>
                getUser = Fulfilled (Response (Some u) None) \<and>
                upload = Fulfilled (Response (Some d) None)) \<longrightarrow>
            formData (fst (handleFileUpload selected fileType getUser uuid upload getPublicUrl (form c))) =
              formData (form c) \<and>
            uploadedFiles (fst (handleFileUpload selected fileType getUser uuid upload getPublicUrl (form c))) =
              uploadedFiles (form c)"
    using handleFileUpload_unsuccessful [of selected getUser upload fileType uuid getPublicUrl "form c"]
    by blast
  have input: "(name, type) \<in> set rendered_inputs \<longrightarrow>
            get_file_property slot (uploadedFiles (handleInputChange parseFloat name val type (form c))) =
              get_file_property slot (uploadedFiles (form c)) \<and>
            get_optional_property (slot @ ''_url'')
                (formData (handleInputChange parseFloat name val type (form c))) =
              get_optional_property (slot @ ''_url'') (formData (form c))"
    using handleInputChange_slot [OF _ assms(2), of name type parseFloat val "form c"] by blast
  have timer: "0 < timers c \<longrightarrow>
            step parseFloat getPublicUrl TimerFires c =
              Some \<lparr>form = resetForm (form c), timers = timers c - 1\<rparr>"
    by simp
  note frame = handleSubmit_frame [of getUser inserted "form c"]
  note reset = resetForm_slot [OF assms(2), of "form c"]
  show ?thesis
    by (intro conjI)
      (rule inv own other failed input timer frame [THEN conjunct1] frame [THEN conjunct2]
        reset [THEN conjunct1] reset [THEN conjunct2])+
qed

theorem slot_file_iff_url_witness:
  "run (\<lambda>v. None) (\<lambda>p. ''https://cdn/'' @ p)
      [FileUpload (Some example_file) ''business_plan''
         (Fulfilled (Response (Some example_user) None)) ''u-1''
         (Fulfilled (Response (Some (UploadData ''user-1/u-1.pdf'')) None))] initial_client =
     Some \<lparr>form = example_uploaded_state, timers = 0\<rparr> \<and>
   ''business_plan'' \<in> set rendered_uploads \<and>
   get_file_property ''business_plan'' (uploadedFiles example_uploaded_state) = Some example_file \<and>
   get_optional_property ''business_plan_url'' (formData example_uploaded_state) =
     Some ''https://cdn/user-1/u-1.pdf'' \<and>
   get_file_property ''business_plan'' (uploadedFiles (fst (handleFileUpload (Some example_file)
       ''business_plan'' (Fulfilled (Response (Some example_user) None)) ''u-2''
       (Fulfilled (Response (Some (UploadData ''user-1/u-2.pdf'')) None))
       (\<lambda>p. ''https://cdn/'' @ p) example_uploaded_state))) = Some example_file \<and>
   get_optional_property ''business_plan_url'' (formData (fst (handleFileUpload (Some example_file)
       ''business_plan'' (Fulfilled (Response (Some example_user) None)) ''u-2''
       (Fulfilled (Response (Some (UploadData ''user-1/u-2.pdf'')) None))
       (\<lambda>p. ''https://cdn/'' @ p) example_uploaded_state))) = Some ''https://cdn/user-1/u-2.pdf'' \<and>
   get_file_property ''business_plan'' (uploadedFiles (fst (handleFileUpload (Some example_file)
       ''financial_statements'' (Fulfilled (Response (Some example_user) None)) ''u-2''
       (Fulfilled (Response (Some (UploadData ''user-1/u-2.pdf'')) None))
       (\<lambda>p. ''https://cdn/'' @ p) example_uploaded_state))) = Some example_file \<and>
   formData (fst (handleFileUpload (Some example_file) ''financial_statements''
       (Fulfilled (Response (Some example_user) None)) ''u-2''
       (Fulfilled (Response None (Some (ApiError ''quota exceeded''))))
       (\<lambda>p. ''https://cdn/'' @ p) example_uploaded_state)) = formData example_uploaded_state \<and>
   uploadedFiles (fst (handleFileUpload (Some example_big_file) ''financial_statements''
       (Fulfilled (Response (Some example_user) None)) ''u-3''
       (Fulfilled (Response (Some (UploadData ''user-1/u-3.pdf'')) None))
       (\<lambda>p. ''https://cdn/'' @ p) example_uploaded_state)) = uploadedFiles example_uploaded_state \<and>
   get_file_property ''business_plan''
     (uploadedFiles (handleInputChange (\<lambda>v. None) ''company_name'' ''Acme'' ''text''
        example_uploaded_state)) = Some example_file \<and>
   get_optional_property ''business_plan_url''
     (formData (handleInputChange (\<lambda>v. None) ''company_name'' ''Acme'' ''text''
        example_uploaded_state)) = Some ''https://cdn/user-1/u-1.pdf'' \<and>
   get_file_property ''business_plan'' (uploadedFiles (resetForm example_uploaded_state)) = None \<and>
   get_optional_property ''business_plan_url'' (formData (resetForm example_uploaded_state)) = None"
proof -
  have r: "run (\<lambda>v. None) (\<lambda>p. ''https://cdn/'' @ p)
      [FileUpload (Some example_file) ''business_plan''
         (Fulfilled (Response (Some example_user) None)) ''u-1''
         (Fulfilled (Response (Some (UploadData ''user-1/u-1.pdf'')) None))] initial_client =
     Some \<lparr>form = example_uploaded_state, timers = 0\<rparr>"
    by (simp add: initial_client_def initial_state_def rendered_uploads_def handleFileUpload_def
        Let_def example_file_def example_user_def set_string_property_def set_file_property_def
        example_uploaded_state_def)
  have slot: "''business_plan'' \<in> set rendered_uploads"
    by (simp add: rendered_uploads_def)
  have other: "''financial_statements'' \<in> set rendered_uploads"
    by (simp add: rendered_uploads_def)
  have small: "size_file example_file \<le> 10 * 1024 * 1024"
    by (simp add: example_file_def)
  have big: "\<not> size_file example_big_file \<le> 10 * 1024 * 1024"
    by (simp add: example_big_file_def)
  have inp: "(''company_name'', ''text'') \<in> set rendered_inputs"
    by (simp add: rendered_inputs_def)
  have now_file: "get_file_property ''business_plan'' (uploadedFiles example_uploaded_state) =
      Some example_file"
    by (simp add: get_file_property_def example_uploaded_state_def)
  have now_url: "get_optional_property ''business_plan_url'' (formData example_uploaded_state) =
      Some ''https://cdn/user-1/u-1.pdf''"
    by (simp add: get_optional_property_def example_uploaded_state_def)
  note ok = slot_file_iff_url [OF r slot, where f = example_file and u = example_user
      and uuid = "''u-2''" and d = "UploadData ''user-1/u-2.pdf''"
      and fileType = "''financial_statements''"
      and selected = "Some example_file" and getUser = "Fulfilled (Response (Some example_user) None)"
      and upload = "Fulfilled (Response None (Some (ApiError ''quota exceeded'')))"
      and name = "''company_name''" and type = "''text''" and val = "''Acme''"]
  note rejected = slot_file_iff_url [OF r slot, where uuid = "''u-3''"
      and fileType = "''financial_statements''"
      and selected = "Some example_big_file" and getUser = "Fulfilled (Response (Some example_user) None)"
      and upload = "Fulfilled (Response (Some (UploadData ''user-1/u-3.pdf'')) None)"]
  from ok small other inp now_file now_url
  have 1: "get_file_property ''business_plan'' (uploadedFiles (fst (handleFileUpload (Some example_file)
       ''business_plan'' (Fulfilled (Response (Some example_user) None)) ''u-2''
       (Fulfilled (Response (Some (UploadData ''user-1/u-2.pdf'')) None))
       (\<lambda>p. ''https://cdn/'' @ p) example_uploaded_state))) = Some example_file"
    and 2: "get_optional_property ''business_plan_url'' (formData (fst (handleFileUpload (Some example_file)
       ''business_plan'' (Fulfilled (Response (Some example_user) None)) ''u-2''
       (Fulfilled (Response (Some (UploadData ''user-1/u-2.pdf'')) None))
       (\<lambda>p. ''https://cdn/'' @ p) example_uploaded_state))) = Some ''https://cdn/user-1/u-2.pdf''"
    and 3: "get_file_property ''business_plan'' (uploadedFiles (fst (handleFileUpload (Some example_file)
       ''financial_statements'' (Fulfilled (Response (Some example_user) None)) ''u-2''
       (Fulfilled (Response (Some (UploadData ''user-1/u-2.pdf'')) None))
       (\<lambda>p. ''https://cdn/'' @ p) example_uploaded_state))) = Some example_file"
    and 4: "formData (fst (handleFileUpload (Some example_file) ''financial_statements''
       (Fulfilled (Response (Some example_user) None)) ''u-2''
       (Fulfilled (Response None (Some (ApiError ''quota exceeded''))))
       (\<lambda>p. ''https://cdn/'' @ p) example_uploaded_state)) = formData example_uploaded_state"
    and 6: "get_file_property ''business_plan''
     (uploadedFiles (handleInputChange (\<lambda>v. None) ''company_name'' ''Acme'' ''text''
        example_uploaded_state)) = Some example_file"
    and 7: "get_optional_property ''business_plan_url''
     (formData (handleInputChange (\<lambda>v. None) ''company_name'' ''Acme'' ''text''
        example_uploaded_state)) = Some ''https://cdn/user-1/u-1.pdf''"
    and 8: "get_file_property ''business_plan'' (uploadedFiles (resetForm example_uploaded_state)) = None"
    and 9: "get_optional_property ''business_plan_url'' (formData (resetForm example_uploaded_state)) = None"
    by simp_all
  from rejected big
  have 5: "uploadedFiles (fst (handleFileUpload (Some example_big_file) ''financial_statements''
       (Fulfilled (Response (Some example_user) None)) ''u-3''
       (Fulfilled (Response (Some (UploadData ''user-1/u-3.pdf'')) None))
       (\<lambda>p. ''https://cdn/'' @ p) example_uploaded_state)) = uploadedFiles example_uploaded_state"
    by simp
  from r slot now_file now_url 1 2 3 4 5 6 7 8 9 show ?thesis
    by (intro conjI)
qed

end
